theory Spec2Isabelle
  imports Complex_Main
begin

section \<open>Python values\<close>

text \<open>
  The values the recorder and the snapshot engine handle. A dict key is one of the
  built-in hashable scalars; a float is the real number it denotes (nan and the
  infinities are outside the model); a dict is its list of items in insertion order.
  Every other object is described by what the snapshot engine observes of it: the name
  and module of its type, whether it is a pydantic \<open>BaseModel\<close> and what
  \<open>model_dump()\<close> does, whether it has a \<open>__dict__\<close> and its items,
  what \<open>pickle.dumps\<close> followed by base64 does, and what \<open>str()\<close> does.
  A call that raises is \<open>Inl\<close> of the exception's message.
\<close>

datatype pykey = KNone | KBool bool | KInt int | KStr string

datatype pyval =
    VNone
  | VBool bool
  | VInt int
  | VFloat real
  | VStr string
  | VList "pyval list"
  | VTuple "pyval list"
  | VDict "(pykey \<times> pyval) list"
  | VObj (ty_name: string) (ty_module: string)
         (obj_model_dump: "(string + pyval) option")
         (obj_attrs: "((pykey \<times> pyval) list) option")
         (obj_pickle: "string + string")
         (obj_str: "string + string")

type_synonym pydict = "(pykey \<times> pyval) list"

text \<open>Keys are compared as Python compares them: \<open>True == 1\<close> and \<open>False == 0\<close>.\<close>

fun key_num :: "pykey \<Rightarrow> int option" where
  "key_num (KBool b) = Some (if b then 1 else 0)"
| "key_num (KInt i) = Some i"
| "key_num _ = None"

fun key_eq :: "pykey \<Rightarrow> pykey \<Rightarrow> bool" where
  "key_eq KNone KNone = True"
| "key_eq (KStr s) (KStr t) = (s = t)"
| "key_eq a b = (case (key_num a, key_num b) of (Some i, Some j) \<Rightarrow> i = j | _ \<Rightarrow> False)"

fun dict_get :: "pydict \<Rightarrow> pykey \<Rightarrow> pyval option" where
  "dict_get [] k = None"
| "dict_get ((k', v) # d) k = (if key_eq k' k then Some v else dict_get d k)"

definition dict_in :: "pykey \<Rightarrow> pydict \<Rightarrow> bool" where
  "dict_in k d = (dict_get d k \<noteq> None)"

text \<open>\<open>d[k] = v\<close>: an existing key keeps its place, a new key goes to the end.\<close>

fun dict_set :: "pydict \<Rightarrow> pykey \<Rightarrow> pyval \<Rightarrow> pydict" where
  "dict_set [] k v = [(k, v)]"
| "dict_set ((k', v') # d) k v =
     (if key_eq k' k then (k', v) # d else (k', v') # dict_set d k v)"

text \<open>\<open>str\<close> of an integer: its decimal digits, with a sign when negative.\<close>

definition digit_char :: "nat \<Rightarrow> char" where
  "digit_char d = char_of (48 + d)"

fun str_nat :: "nat \<Rightarrow> string" where
  "str_nat n = (if n < 10 then [digit_char n] else str_nat (n div 10) @ [digit_char (n mod 10)])"

declare str_nat.simps [simp del]

definition str_int :: "int \<Rightarrow> string" where
  "str_int i = (if i < 0 then CHR ''-'' # str_nat (nat (- i)) else str_nat (nat i))"

section \<open>Event model (core/events.py)\<close>

datatype EventType = SPAN | LLM_CALL | TOOL_CALL | STATE_CHANGE | ERROR_EVENT | CHECKPOINT

datatype EventStatus = RUNNING | SUCCESS | ERROR | CANCELLED

text \<open>
  Timestamps are integers (milliseconds); \<open>datetime.now\<close> and \<open>uuid4\<close> are
  arguments of the operations that call them. The subclasses of \<open>TraceEvent\<close> add
  payload fields that no operation below reads.
\<close>

record TraceEvent =
  ev_id :: string
  ev_trace_id :: string
  ev_parent_id :: "string option"
  ev_event_type :: EventType
  ev_timestamp :: int
  ev_end_timestamp :: "int option"
  ev_duration_ms :: "int option"
  ev_name :: string
  ev_status :: EventStatus
  ev_metadata :: pydict
  ev_tags :: "string list"

text \<open>The constructor with the defaults of the field declarations.\<close>

definition new_event :: "string \<Rightarrow> string \<Rightarrow> EventType \<Rightarrow> string \<Rightarrow> pydict \<Rightarrow> int \<Rightarrow> TraceEvent" where
  "new_event uuid trace_id etype name metadata now =
     \<lparr>ev_id = uuid, ev_trace_id = trace_id, ev_parent_id = None, ev_event_type = etype,
      ev_timestamp = now, ev_end_timestamp = None, ev_duration_ms = None, ev_name = name,
      ev_status = RUNNING, ev_metadata = metadata, ev_tags = []\<rparr>"

definition event_complete :: "TraceEvent \<Rightarrow> EventStatus \<Rightarrow> int \<Rightarrow> TraceEvent" where
  "event_complete e status now =
     e\<lparr>ev_end_timestamp := Some now,
       ev_duration_ms := Some (now - ev_timestamp e),
       ev_status := status\<rparr>"

definition event_fail :: "TraceEvent \<Rightarrow> string \<Rightarrow> int \<Rightarrow> TraceEvent" where
  "event_fail e error now =
     event_complete (e\<lparr>ev_metadata := dict_set (ev_metadata e) (KStr ''error'') (VStr error)\<rparr>)
       ERROR now"

definition terminal :: "EventStatus \<Rightarrow> bool" where
  "terminal s = (s = SUCCESS \<or> s = ERROR \<or> s = CANCELLED)"

record StateSnapshot =
  snap_id :: string
  snap_trace_id :: string
  snap_event_id :: string
  snap_timestamp :: int
  snap_state :: pyval
  snap_state_type :: string
  snap_restorable :: bool
  snap_checkpoint_name :: "string option"
  snap_description :: "string option"
  snap_serialization_warnings :: "string list"

text \<open>
  A live session holds references to its event objects (\<open>'e\<close> is the reference
  type); a dumped or loaded session holds the events themselves.
\<close>

record 'e TraceSession =
  sess_id :: string
  sess_name :: string
  sess_description :: "string option"
  sess_start_time :: int
  sess_end_time :: "int option"
  sess_events :: "'e list"
  sess_snapshots :: "StateSnapshot list"
  sess_status :: EventStatus
  sess_root_event_id :: "string option"
  sess_metadata :: pydict
  sess_framework :: "string option"
  sess_python_version :: "string option"
  sess_sdk_version :: "string option"

type_synonym ref = nat
type_synonym heap = "ref \<Rightarrow> TraceEvent"

text \<open>
  \<open>add_event\<close> writes the session's id into the event object, appends the object and
  sets the root only while it is still \<open>None\<close>.
\<close>

definition add_event :: "ref TraceSession \<Rightarrow> ref \<Rightarrow> heap \<Rightarrow> ref TraceSession \<times> heap" where
  "add_event s r h =
     (let h1 = h(r := (h r)\<lparr>ev_trace_id := sess_id s\<rparr>);
          s1 = s\<lparr>sess_events := sess_events s @ [r]\<rparr>
      in (if sess_root_event_id s1 = None \<and> ev_parent_id (h1 r) = None
          then s1\<lparr>sess_root_event_id := Some (ev_id (h1 r))\<rparr> else s1, h1))"

definition add_snapshot :: "'e TraceSession \<Rightarrow> StateSnapshot \<Rightarrow> 'e TraceSession" where
  "add_snapshot s snap =
     s\<lparr>sess_snapshots := sess_snapshots s @ [snap\<lparr>snap_trace_id := sess_id s\<rparr>]\<rparr>"

definition session_complete :: "'e TraceSession \<Rightarrow> EventStatus \<Rightarrow> int \<Rightarrow> 'e TraceSession" where
  "session_complete s status now = s\<lparr>sess_end_time := Some now, sess_status := status\<rparr>"

text \<open>\<open>model_dump\<close> of a session: every event reference is read out of the heap.\<close>

definition session_dump :: "heap \<Rightarrow> ref TraceSession \<Rightarrow> TraceEvent TraceSession" where
  "session_dump h s =
     \<lparr>sess_id = sess_id s, sess_name = sess_name s, sess_description = sess_description s,
      sess_start_time = sess_start_time s, sess_end_time = sess_end_time s,
      sess_events = map h (sess_events s), sess_snapshots = sess_snapshots s,
      sess_status = sess_status s, sess_root_event_id = sess_root_event_id s,
      sess_metadata = sess_metadata s, sess_framework = sess_framework s,
      sess_python_version = sess_python_version s, sess_sdk_version = sess_sdk_version s\<rparr>"

section \<open>Snapshot engine: serialization (core/snapshot.py)\<close>

text \<open>\<open>str(key)\<close>, which is also what an f-string puts for \<open>{key}\<close>.\<close>

fun py_str_key :: "pykey \<Rightarrow> string" where
  "py_str_key KNone = ''None''"
| "py_str_key (KBool b) = (if b then ''True'' else ''False'')"
| "py_str_key (KInt i) = str_int i"
| "py_str_key (KStr s) = s"

text \<open>\<open>type(state).__name__\<close>.\<close>

fun type_name :: "pyval \<Rightarrow> string" where
  "type_name VNone = ''NoneType''"
| "type_name (VBool _) = ''bool''"
| "type_name (VInt _) = ''int''"
| "type_name (VFloat _) = ''float''"
| "type_name (VStr _) = ''str''"
| "type_name (VList _) = ''list''"
| "type_name (VTuple _) = ''tuple''"
| "type_name (VDict _) = ''dict''"
| "type_name (VObj tn _ _ _ _ _) = tn"

text \<open>
  The engine's two registries. An entry of the first stands for a registered type: its
  name, the test \<open>isinstance(state, type_)\<close> and the serializer, which returns a
  \<open>dict[str, Any]\<close> or raises. The second maps a type name to its deserializer.
\<close>

record SnapshotEngine =
  custom_serializers :: "(string \<times> (pyval \<Rightarrow> bool) \<times> (pyval \<Rightarrow> string + pydict)) list"
  custom_deserializers :: "(string \<times> (pyval \<Rightarrow> string + pyval)) list"

definition init_engine :: SnapshotEngine where
  "init_engine = \<lparr>custom_serializers = [], custom_deserializers = []\<rparr>"

fun assoc_set :: "('k \<times> 'v) list \<Rightarrow> 'k \<Rightarrow> 'v \<Rightarrow> ('k \<times> 'v) list" where
  "assoc_set [] k v = [(k, v)]"
| "assoc_set ((k', v') # d) k v = (if k' = k then (k', v) # d else (k', v') # assoc_set d k v)"

definition register_serializer ::
  "SnapshotEngine \<Rightarrow> string \<Rightarrow> (pyval \<Rightarrow> bool) \<Rightarrow> (pyval \<Rightarrow> string + pydict)
     \<Rightarrow> (pyval \<Rightarrow> string + pyval) \<Rightarrow> SnapshotEngine" where
  "register_serializer eng tname isinst serializer deserializer =
     eng\<lparr>custom_serializers := assoc_set (custom_serializers eng) tname (isinst, serializer),
         custom_deserializers := assoc_set (custom_deserializers eng) tname deserializer\<rparr>"

text \<open>
  What a step of the serializer yields: the value it returns or the message of the
  exception it raises, and the warnings list as the step leaves it. The list is one
  mutable object in the source, so what was appended before an exception stays.
\<close>

type_synonym 'a outcome = "(string + 'a) \<times> string list"

text \<open>
  The loop over the registered serializers: the first matching one that succeeds
  decides; one that raises leaves a warning and the loop goes on.
\<close>

fun custom_loop ::
  "(string \<times> (pyval \<Rightarrow> bool) \<times> (pyval \<Rightarrow> string + pydict)) list \<Rightarrow> pyval \<Rightarrow> string list \<Rightarrow> string
     \<Rightarrow> pyval option \<times> string list" where
  "custom_loop [] state warnings path = (None, warnings)"
| "custom_loop ((tname, isinst, serializer) # rest) state warnings path =
     (if isinst state
      then (case serializer state of
              Inr serialized \<Rightarrow>
                (Some (VDict (dict_set serialized (KStr ''_custom_type'') (VStr tname))), warnings)
            | Inl e \<Rightarrow>
                custom_loop rest state (warnings @ [path @ '': custom serializer failed: '' @ e]) path)
      else custom_loop rest state warnings path)"

text \<open>
  The last two steps of the chain, for a value of the given type name whose
  \<open>pickle.dumps\<close> and \<open>str\<close> do what the two outcomes say. The pickle attempt
  is inside \<open>try\<close>; the string rendering is not.
\<close>

definition fallback ::
  "string \<Rightarrow> string + string \<Rightarrow> string + string \<Rightarrow> string list \<Rightarrow> string \<Rightarrow> (pyval \<times> bool) outcome" where
  "fallback tname pickled rendered warnings path =
     (case pickled of
        Inr encoded \<Rightarrow>
          (Inr (VDict [(KStr ''_pickled'', VStr encoded), (KStr ''_type'', VStr tname)], True), warnings)
      | Inl e \<Rightarrow>
          (let warnings1 = warnings @ [path @ '': pickle fallback failed: '' @ e]
           in case rendered of
                Inl e' \<Rightarrow> (Inl e', warnings1)
              | Inr s \<Rightarrow>
                  (Inr (VDict [(KStr ''_str'', VStr (take 500 s)), (KStr ''_type'', VStr tname),
                               (KStr ''_unserializable'', VBool True)], False), warnings1)))"

definition scalar :: "pyval \<Rightarrow> pyval" where
  "scalar state = VDict [(KStr ''_value'', state), (KStr ''_type'', VStr (type_name state))]"

text \<open>\<open>key.startswith("_")\<close>: a key that is not a string has no such method.\<close>

fun startswith_underscore :: "pykey \<Rightarrow> string + bool" where
  "startswith_underscore (KStr s) = Inr (case s of [] \<Rightarrow> False | c # _ \<Rightarrow> c = CHR ''_'')"
| "startswith_underscore k =
     Inl ([CHR 0x27] @ type_name (case k of KNone \<Rightarrow> VNone | KBool b \<Rightarrow> VBool b | KInt i \<Rightarrow> VInt i | KStr s \<Rightarrow> VStr s)
          @ [CHR 0x27] @ '' object has no attribute '' @ [CHR 0x27] @ ''startswith'' @ [CHR 0x27])"

text \<open>
  \<open>_serialize_state\<close> and its three loops: over the elements of a list or tuple,
  over the items of a dict and over the items of an object's \<open>__dict__\<close>. The last
  loop runs inside \<open>try\<close>: an exception in it, also one from a nested call, is
  caught by the object's branch, which then falls back to pickle.
\<close>

function (sequential)
  serialize_state :: "SnapshotEngine \<Rightarrow> pyval \<Rightarrow> string list \<Rightarrow> string \<Rightarrow> int \<Rightarrow> (pyval \<times> bool) outcome"
and serialize_items ::
  "SnapshotEngine \<Rightarrow> pyval list \<Rightarrow> nat \<Rightarrow> string list \<Rightarrow> string \<Rightarrow> int \<Rightarrow> pyval list \<Rightarrow> bool
     \<Rightarrow> (pyval list \<times> bool) outcome"
and serialize_entries ::
  "SnapshotEngine \<Rightarrow> pydict \<Rightarrow> string list \<Rightarrow> string \<Rightarrow> int \<Rightarrow> pydict \<Rightarrow> bool
     \<Rightarrow> (pydict \<times> bool) outcome"
and serialize_attrs ::
  "SnapshotEngine \<Rightarrow> pydict \<Rightarrow> string list \<Rightarrow> string \<Rightarrow> int \<Rightarrow> pydict \<Rightarrow> bool
     \<Rightarrow> (pydict \<times> bool) outcome"
where
  "serialize_state eng state warnings path max_depth =
     (if max_depth \<le> 0
      then (Inr (VDict [(KStr ''_error'', VStr ''max_depth_reached''), (KStr ''_path'', VStr path)], False),
            warnings @ [path @ '': max depth reached''])
      else
        (case custom_loop (custom_serializers eng) state warnings path of
           (Some serialized, warnings1) \<Rightarrow> (Inr (serialized, True), warnings1)
         | (None, warnings1) \<Rightarrow>
            (case state of
               VNone \<Rightarrow> (Inr (scalar state, True), warnings1)
             | VBool _ \<Rightarrow> (Inr (scalar state, True), warnings1)
             | VInt _ \<Rightarrow> (Inr (scalar state, True), warnings1)
             | VFloat _ \<Rightarrow> (Inr (scalar state, True), warnings1)
             | VStr _ \<Rightarrow> (Inr (scalar state, True), warnings1)
             | VList xs \<Rightarrow>
                 (case serialize_items eng xs 0 warnings1 path (max_depth - 1) [] True of
                    (Inl e, warnings2) \<Rightarrow> (Inl e, warnings2)
                  | (Inr (items, is_restorable), warnings2) \<Rightarrow>
                      (Inr (VDict [(KStr ''_value'', VList items), (KStr ''_type'', VStr ''list'')],
                            is_restorable), warnings2))
             | VTuple xs \<Rightarrow>
                 (case serialize_items eng xs 0 warnings1 path (max_depth - 1) [] True of
                    (Inl e, warnings2) \<Rightarrow> (Inl e, warnings2)
                  | (Inr (items, is_restorable), warnings2) \<Rightarrow>
                      (Inr (VDict [(KStr ''_value'', VList items), (KStr ''_type'', VStr ''tuple'')],
                            is_restorable), warnings2))
             | VDict kvs \<Rightarrow>
                 (case serialize_entries eng kvs warnings1 path (max_depth - 1) [] True of
                    (Inl e, warnings2) \<Rightarrow> (Inl e, warnings2)
                  | (Inr (items, is_restorable), warnings2) \<Rightarrow>
                      (Inr (VDict [(KStr ''_value'', VDict items), (KStr ''_type'', VStr ''dict'')],
                            is_restorable), warnings2))
             | VObj tname tmodule dump attrs pickled rendered \<Rightarrow>
                 (case dump of
                    Some (Inr dumped) \<Rightarrow>
                      (Inr (VDict [(KStr ''_value'', dumped), (KStr ''_type'', VStr tname),
                                   (KStr ''_pydantic'', VBool True), (KStr ''_module'', VStr tmodule)],
                            True), warnings1)
                  | _ \<Rightarrow>
                      (let warnings2 =
                             (case dump of
                                Some (Inl e) \<Rightarrow> warnings1 @ [path @ '': Pydantic serialization failed: '' @ e]
                              | _ \<Rightarrow> warnings1)
                       in case attrs of
                            None \<Rightarrow> fallback tname pickled rendered warnings2 path
                          | Some kvs \<Rightarrow>
                              (case serialize_attrs eng kvs warnings2 path (max_depth - 1) [] True of
                                 (Inr (obj_dict, is_restorable), warnings3) \<Rightarrow>
                                   (Inr (VDict [(KStr ''_value'', VDict obj_dict), (KStr ''_type'', VStr tname),
                                                (KStr ''_module'', VStr tmodule)],
                                         is_restorable), warnings3)
                               | (Inl e, warnings3) \<Rightarrow>
                                   fallback tname pickled rendered
                                     (warnings3 @ [path @ '': dict serialization failed: '' @ e]) path))))))"
| "serialize_items eng [] i warnings path depth items is_restorable =
     (Inr (items, is_restorable), warnings)"
| "serialize_items eng (item # rest) i warnings path depth items is_restorable =
     (case serialize_state eng item warnings (path @ ''['' @ str_nat i @ '']'') depth of
        (Inl e, warnings1) \<Rightarrow> (Inl e, warnings1)
      | (Inr (serialized, restorable), warnings1) \<Rightarrow>
          serialize_items eng rest (Suc i) warnings1 path depth (items @ [serialized])
            (is_restorable \<and> restorable))"
| "serialize_entries eng [] warnings path depth items is_restorable =
     (Inr (items, is_restorable), warnings)"
| "serialize_entries eng ((key, val) # rest) warnings path depth items is_restorable =
     (case serialize_state eng val warnings (path @ ''.'' @ py_str_key key) depth of
        (Inl e, warnings1) \<Rightarrow> (Inl e, warnings1)
      | (Inr (serialized, restorable), warnings1) \<Rightarrow>
          serialize_entries eng rest warnings1 path depth
            (dict_set items (KStr (py_str_key key)) serialized) (is_restorable \<and> restorable))"
| "serialize_attrs eng [] warnings path depth obj_dict is_restorable =
     (Inr (obj_dict, is_restorable), warnings)"
| "serialize_attrs eng ((key, val) # rest) warnings path depth obj_dict is_restorable =
     (case startswith_underscore key of
        Inl e \<Rightarrow> (Inl e, warnings)
      | Inr True \<Rightarrow> serialize_attrs eng rest warnings path depth obj_dict is_restorable
      | Inr False \<Rightarrow>
          (case serialize_state eng val warnings (path @ ''.'' @ py_str_key key) depth of
             (Inl e, warnings1) \<Rightarrow> (Inl e, warnings1)
           | (Inr (serialized, restorable), warnings1) \<Rightarrow>
               serialize_attrs eng rest warnings1 path depth (dict_set obj_dict key serialized)
                 (is_restorable \<and> restorable)))"
  by pat_completeness auto
termination
  apply (relation "measure (\<lambda>a. case a of
          Inl (Inl (eng, state, ws, path, d)) \<Rightarrow> size state
        | Inl (Inr (eng, xs, i, ws, path, d, items, r)) \<Rightarrow> size_list size xs
        | Inr (Inl (eng, kvs, ws, path, d, items, r)) \<Rightarrow> size_list (size_prod (\<lambda>_. 0) size) kvs
        | Inr (Inr (eng, kvs, ws, path, d, items, r)) \<Rightarrow> size_list (size_prod (\<lambda>_. 0) size) kvs)")
  apply auto
  done

declare serialize_state.simps [simp del]


section \<open>Snapshot engine: deserialization\<close>

text \<open>Truth value, iteration and hashability of a value.\<close>

fun py_truthy :: "pyval \<Rightarrow> bool" where
  "py_truthy VNone = False"
| "py_truthy (VBool b) = b"
| "py_truthy (VInt i) = (i \<noteq> 0)"
| "py_truthy (VFloat r) = (r \<noteq> 0)"
| "py_truthy (VStr s) = (s \<noteq> [])"
| "py_truthy (VList xs) = (xs \<noteq> [])"
| "py_truthy (VTuple xs) = (xs \<noteq> [])"
| "py_truthy (VDict d) = (d \<noteq> [])"
| "py_truthy (VObj _ _ _ _ _ _) = True"

fun key_val :: "pykey \<Rightarrow> pyval" where
  "key_val KNone = VNone"
| "key_val (KBool b) = VBool b"
| "key_val (KInt i) = VInt i"
| "key_val (KStr s) = VStr s"

fun py_iter :: "pyval \<Rightarrow> string + pyval list" where
  "py_iter (VList xs) = Inr xs"
| "py_iter (VTuple xs) = Inr xs"
| "py_iter (VDict d) = Inr (map (key_val \<circ> fst) d)"
| "py_iter (VStr s) = Inr (map (\<lambda>c. VStr [c]) s)"
| "py_iter v = Inl (''TypeError: '' @ type_name v @ '' object is not iterable'')"

fun hashable :: "pyval \<Rightarrow> bool" where
  "hashable (VList _) = False"
| "hashable (VDict _) = False"
| "hashable (VTuple xs) = list_all hashable xs"
| "hashable _ = True"

definition dict_get_or :: "pydict \<Rightarrow> pykey \<Rightarrow> pyval \<Rightarrow> pyval" where
  "dict_get_or d k dflt = (case dict_get d k of Some v \<Rightarrow> v | None \<Rightarrow> dflt)"

text \<open>A comprehension whose element expression may raise: the first exception wins.\<close>

fun sequence_sum :: "('e + 'a) list \<Rightarrow> 'e + 'a list" where
  "sequence_sum [] = Inr []"
| "sequence_sum (Inl e # _) = Inl e"
| "sequence_sum (Inr x # rest) = (case sequence_sum rest of Inl e \<Rightarrow> Inl e | Inr xs \<Rightarrow> Inr (x # xs))"

text \<open>
  The branch for \<open>_custom_type\<close>: \<open>None\<close> when the code goes on to the next
  branch, otherwise what the branch returns or raises.
\<close>

definition custom_deserialize :: "SnapshotEngine \<Rightarrow> pydict \<Rightarrow> (string + pyval) option" where
  "custom_deserialize eng d =
     (case dict_get d (KStr ''_custom_type'') of
        None \<Rightarrow> None
      | Some custom_type \<Rightarrow>
          (if \<not> hashable custom_type
           then Some (Inl (''TypeError: unhashable type: '' @ type_name custom_type))
           else (case custom_type of
                   VStr n \<Rightarrow> (case map_of (custom_deserializers eng) n of
                                Some deserializer \<Rightarrow> Some (deserializer (VDict d))
                              | None \<Rightarrow> None)
                 | _ \<Rightarrow> None)))"

lemma dict_get_size: "dict_get d k = Some v \<Longrightarrow> size v < Suc (size_list (size_prod (\<lambda>_. 0) size) d)"
  by (induction d) (auto split: if_splits)

lemma dict_get_or_size:
  "size (dict_get_or d k VNone) < Suc (size_list (size_prod (\<lambda>_. 0) size) d)"
  by (cases "dict_get d k") (auto simp: dict_get_or_def dest: dict_get_size)

lemma py_iter_size: "py_iter v = Inr xs \<Longrightarrow> x \<in> set xs \<Longrightarrow> size x < Suc (size v)"
proof (cases v)
  case (VList ys)
  assume "py_iter v = Inr xs" "x \<in> set xs"
  with VList show ?thesis by (auto dest!: size_list_estimation' [where f = size and y = "size x"] simp: less_Suc_eq_le)
next
  case (VTuple ys)
  assume "py_iter v = Inr xs" "x \<in> set xs"
  with VTuple show ?thesis by (auto dest!: size_list_estimation' [where f = size and y = "size x"] simp: less_Suc_eq_le)
next
  case (VDict d)
  assume "py_iter v = Inr xs" "x \<in> set xs"
  with VDict obtain k where "x = key_val k" by auto
  then show ?thesis by (cases k) auto
qed auto

lemma dict_item_size: "(k, v) \<in> set d \<Longrightarrow> size v < Suc (size_list (size_prod (\<lambda>_. 0) size) d)"
  by (induction d) auto

lemma dict_value_item_size:
  assumes "VDict kvs = dict_get_or d k VNone" and "kv \<in> set kvs"
  shows "size (snd kv) < Suc (size_list (size_prod (\<lambda>_. 0) size) d)"
proof -
  have "size (snd kv) < Suc (size_list (size_prod (\<lambda>_. 0) size) kvs)"
    using dict_item_size [of "fst kv" "snd kv" kvs] assms(2) by simp
  moreover have "size (VDict kvs) < Suc (size_list (size_prod (\<lambda>_. 0) size) d)"
    using dict_get_or_size [of d k] assms(1) by simp
  ultimately show ?thesis by simp
qed

lemma dict_value_iter_size:
  assumes "py_iter (dict_get_or d k VNone) = Inr xs" and "item \<in> set xs"
  shows "size item < Suc (size_list (size_prod (\<lambda>_. 0) size) d)"
  using py_iter_size [OF assms] dict_get_or_size [of d k] by simp

text \<open>
  \<open>_deserialize_state\<close>; \<open>loads\<close> stands for base64 decoding followed by
  \<open>pickle.loads\<close>. Data that is not a dict makes one of the first lines raise.
\<close>

function deserialize_state ::
  "SnapshotEngine \<Rightarrow> (string \<Rightarrow> string + pyval) \<Rightarrow> pyval \<Rightarrow> string \<Rightarrow> string + pyval" where
  "deserialize_state eng loads data tname =
     (case data of
        VDict d \<Rightarrow>
          (case custom_deserialize eng d of
             Some outcome \<Rightarrow> outcome
           | None \<Rightarrow>
               (case dict_get d (KStr ''_pickled'') of
                  Some p \<Rightarrow> (case p of VStr s \<Rightarrow> loads s
                              | _ \<Rightarrow> Inl (''AttributeError: '' @ type_name p @ '' object has no attribute encode''))
                | None \<Rightarrow>
                    (if py_truthy (dict_get_or d (KStr ''_unserializable'') VNone)
                     then Inr (dict_get_or d (KStr ''_str'') (VStr (''<'' @ tname @ '': unserializable>'')))
                     else
                       (let val = dict_get_or d (KStr ''_value'') VNone;
                            stored_type = dict_get_or d (KStr ''_type'') (VStr ''unknown'')
                        in if stored_type = VStr ''NoneType'' then Inr VNone
                           else if stored_type \<in> set [VStr ''bool'', VStr ''int'', VStr ''float'', VStr ''str'']
                           then Inr val
                           else if stored_type \<in> set [VStr ''list'', VStr ''tuple'']
                           then (case py_iter val of
                                   Inl e \<Rightarrow> Inl e
                                 | Inr xs \<Rightarrow>
                                     (case sequence_sum (map (\<lambda>item. deserialize_state eng loads item ''unknown'') xs) of
                                        Inl e \<Rightarrow> Inl e
                                      | Inr items \<Rightarrow>
                                          Inr (if stored_type = VStr ''tuple'' then VTuple items else VList items)))
                           else if stored_type = VStr ''dict''
                           then (case val of
                                   VDict kvs \<Rightarrow>
                                     (case sequence_sum (map (\<lambda>kv. deserialize_state eng loads (snd kv) ''unknown'') kvs) of
                                        Inl e \<Rightarrow> Inl e
                                      | Inr items \<Rightarrow> Inr (VDict (zip (map fst kvs) items)))
                                 | _ \<Rightarrow> Inl (''AttributeError: '' @ type_name val @ '' object has no attribute items''))
                           else if py_truthy (dict_get_or d (KStr ''_pydantic'') VNone) then Inr val
                           else (case val of
                                   VDict kvs \<Rightarrow>
                                     (case sequence_sum
                                             (map (\<lambda>kv. case snd kv of
                                                      VDict item \<Rightarrow>
                                                        (if dict_in (KStr ''_value'') item
                                                         then deserialize_state eng loads (snd kv) ''unknown''
                                                         else Inr (snd kv))
                                                    | _ \<Rightarrow> Inr (snd kv)) kvs) of
                                        Inl e \<Rightarrow> Inl e
                                      | Inr items \<Rightarrow> Inr (VDict (zip (map fst kvs) items)))
                                 | _ \<Rightarrow> Inr val)))))
      | _ \<Rightarrow> Inl (''TypeError: '' @ type_name data @ '' is not a dict''))"
  by pat_completeness auto
termination
  apply (relation "measure (\<lambda>(eng, loads, data, tname). size data)")
     apply simp
  subgoal by simp (blast intro: dict_value_iter_size)
  subgoal by simp (blast intro: dict_value_item_size)
  subgoal by simp (frule (1) dict_value_item_size, simp)
  done

declare deserialize_state.simps [simp del]


section \<open>Snapshot engine: diff\<close>

text \<open>
  Python's \<open>==\<close>: numbers compare by value across bool, int and float, sequences
  element by element, dicts by keys and values whatever the order; two objects are
  equal when they are the same.
\<close>

fun py_num :: "pyval \<Rightarrow> real option" where
  "py_num (VBool b) = Some (if b then 1 else 0)"
| "py_num (VInt i) = Some (real_of_int i)"
| "py_num (VFloat r) = Some r"
| "py_num _ = None"

lemma list_elem_size: "x \<in> set xs \<Longrightarrow> size x < Suc (size_list size xs)"
  by (induction xs) auto

function py_eq :: "pyval \<Rightarrow> pyval \<Rightarrow> bool" where
  "py_eq a b =
     (case py_num a of
        Some x \<Rightarrow> (case py_num b of Some y \<Rightarrow> x = y | None \<Rightarrow> False)
      | None \<Rightarrow>
          (case py_num b of
             Some y \<Rightarrow> False
           | None \<Rightarrow>
               (case a of
                  VNone \<Rightarrow> b = VNone
                | VStr s \<Rightarrow> b = VStr s
                | VList xs \<Rightarrow> (case b of VList ys \<Rightarrow> list_all2 py_eq xs ys | _ \<Rightarrow> False)
                | VTuple xs \<Rightarrow> (case b of VTuple ys \<Rightarrow> list_all2 py_eq xs ys | _ \<Rightarrow> False)
                | VDict d \<Rightarrow>
                    (case b of
                       VDict e \<Rightarrow>
                         length d = length e
                         \<and> list_all (\<lambda>kv. case dict_get e (fst kv) of
                                             None \<Rightarrow> False
                                           | Some v' \<Rightarrow> py_eq (snd kv) v') d
                     | _ \<Rightarrow> False)
                | VObj _ _ _ _ _ _ \<Rightarrow> a = b
                | _ \<Rightarrow> False)))"
  by pat_completeness auto
termination
proof (relation "measure (\<lambda>(a, b). size a)")
  show "wf (measure (\<lambda>(a, b). size a))" by simp
next
  fix a b :: pyval and xs ys :: "pyval list" and x y :: pyval
  assume "a = VList xs" and "x \<in> set xs"
  then show "((x, y), a, b) \<in> measure (\<lambda>(a, b). size a)"
    using list_elem_size [of x xs] by simp
next
  fix a b :: pyval and xs ys :: "pyval list" and x y :: pyval
  assume "a = VTuple xs" and "x \<in> set xs"
  then show "((x, y), a, b) \<in> measure (\<lambda>(a, b). size a)"
    using list_elem_size [of x xs] by simp
next
  fix a b :: pyval and d :: pydict and kv :: "pykey \<times> pyval" and v' :: pyval
  assume "a = VDict d" and "kv \<in> set d"
  then show "((snd kv, v'), a, b) \<in> measure (\<lambda>(a, b). size a)"
    using dict_item_size [of "fst kv" "snd kv" d] by simp
qed

declare py_eq.simps [simp del]

text \<open>\<open>d.update(other)\<close>, the type a node declares, and a change descriptor.\<close>

definition dict_update :: "pydict \<Rightarrow> pydict \<Rightarrow> pydict" where
  "dict_update d other = fold (\<lambda>kv acc. dict_set acc (fst kv) (snd kv)) other d"

definition declared_type :: "pyval \<Rightarrow> pyval" where
  "declared_type v = (case v of VDict d \<Rightarrow> dict_get_or d (KStr ''_type'') VNone | _ \<Rightarrow> VStr (type_name v))"

definition change :: "string \<Rightarrow> (string \<times> pyval) list \<Rightarrow> pyval" where
  "change kind entries = VDict ((KStr ''type'', VStr kind) # map (\<lambda>(k, v). (KStr k, v)) entries)"

lemma dict_value_get_size:
  assumes "VDict m = dict_get_or d k (VDict d)" and "Some a = dict_get m key"
  shows "size a < Suc (size_list (size_prod (\<lambda>_. 0) size) d)"
proof -
  have "size (dict_get_or d k (VDict d)) \<le> size (VDict d)"
    by (cases "dict_get d k") (auto simp: dict_get_or_def dest: dict_get_size)
  with assms(1) have "size_list (size_prod (\<lambda>_. 0) size) m \<le> size_list (size_prod (\<lambda>_. 0) size) d"
    by (metis add_le_cancel_right pyval.size(17))
  with dict_get_size [OF assms(2) [symmetric]] show ?thesis by simp
qed

text \<open>
  \<open>_diff_values\<close>. The source iterates over the set of the keys of both dicts, in
  an order Python leaves open: \<open>all_keys\<close> gives that order from the two key lists.
\<close>

function diff_values ::
  "(pykey list \<Rightarrow> pykey list \<Rightarrow> pykey list) \<Rightarrow> pyval \<Rightarrow> pyval \<Rightarrow> string \<Rightarrow> pydict" where
  "diff_values all_keys value1 value2 path =
     (if py_eq value1 value2 then []
      else
        (let type1 = declared_type value1; type2 = declared_type value2
         in if \<not> py_eq type1 type2
            then [(KStr path, change ''type_changed'' [(''from'', type1), (''to'', type2)])]
            else
              (case (value1, value2) of
                 (VDict d1, VDict d2) \<Rightarrow>
                   (let v1 = dict_get_or d1 (KStr ''_value'') value1;
                        v2 = dict_get_or d2 (KStr ''_value'') value2
                    in case (v1, v2) of
                         (VDict m1, VDict m2) \<Rightarrow>
                           fold (\<lambda>key changes.
                                   (case (dict_get m1 key, dict_get m2 key) of
                                      (None, Some b) \<Rightarrow>
                                        dict_set changes (KStr (path @ ''.'' @ py_str_key key))
                                          (change ''added'' [(''value'', b)])
                                    | (Some a, None) \<Rightarrow>
                                        dict_set changes (KStr (path @ ''.'' @ py_str_key key))
                                          (change ''removed'' [(''value'', a)])
                                    | (Some a, Some b) \<Rightarrow>
                                        dict_update changes
                                          (diff_values all_keys a b (path @ ''.'' @ py_str_key key))
                                    | (None, None) \<Rightarrow> changes))
                                (all_keys (map fst m1) (map fst m2)) []
                       | _ \<Rightarrow> [(KStr path, change ''changed'' [(''from'', v1), (''to'', v2)])])
               | _ \<Rightarrow> [(KStr path, change ''changed'' [(''from'', value1), (''to'', value2)])])))"
  by pat_completeness auto
termination
  apply (relation "measure (\<lambda>(ko, a, b, p). size a)")
  apply simp
  apply simp
  apply clarsimp
  apply (erule (1) dict_value_get_size)
  done

declare diff_values.simps [simp del]


text \<open>
  An order of iteration is admissible when it goes through exactly the keys of the two
  dicts; the order of first occurrence is one.
\<close>

definition key_order :: "(pykey list \<Rightarrow> pykey list \<Rightarrow> pykey list) \<Rightarrow> bool" where
  "key_order all_keys = (\<forall>a b. set (all_keys a b) = set a \<union> set b)"

definition first_seen :: "pykey list \<Rightarrow> pykey list \<Rightarrow> pykey list" where
  "first_seen a b = remdups (a @ b)"

section \<open>Snapshot engine: capture\<close>

definition capture ::
  "SnapshotEngine \<Rightarrow> pyval \<Rightarrow> string \<Rightarrow> string \<Rightarrow> string option \<Rightarrow> string option \<Rightarrow> int \<Rightarrow> string
     \<Rightarrow> string + StateSnapshot" where
  "capture eng state trace_id event_id checkpoint_name description t uuid =
     (case serialize_state eng state [] ''root'' 10 of
        (Inl e, warnings) \<Rightarrow> Inl e
      | (Inr (serialized_state, is_restorable), warnings) \<Rightarrow>
          Inr \<lparr>snap_id = uuid, snap_trace_id = trace_id, snap_event_id = event_id,
               snap_timestamp = t, snap_state = serialized_state,
               snap_state_type = type_name state, snap_restorable = is_restorable,
               snap_checkpoint_name = checkpoint_name, snap_description = description,
               snap_serialization_warnings = warnings\<rparr>)"

definition diff ::
  "(pykey list \<Rightarrow> pykey list \<Rightarrow> pykey list) \<Rightarrow> StateSnapshot \<Rightarrow> StateSnapshot \<Rightarrow> pydict" where
  "diff all_keys snapshot1 snapshot2 =
     diff_values all_keys (snap_state snapshot1) (snap_state snapshot2) ''root''"

section \<open>JSON file storage (storage/json_file.py)\<close>

record summary =
  sum_id :: string
  sum_name :: string
  sum_description :: "string option"
  sum_start_time :: int
  sum_end_time :: "int option"
  sum_status :: EventStatus
  sum_event_count :: nat
  sum_snapshot_count :: nat
  sum_framework :: "string option"

text \<open>
  The directory: the session files by session id, and the index file. Writing a file
  is taken to succeed.
\<close>

record JsonFileStorage =
  files :: "string \<Rightarrow> TraceEvent TraceSession option"
  index :: "summary list"

definition init_storage :: JsonFileStorage where
  "init_storage = \<lparr>files = (\<lambda>_. None), index = []\<rparr>"

definition summary_of :: "TraceEvent TraceSession \<Rightarrow> summary" where
  "summary_of s =
     \<lparr>sum_id = sess_id s, sum_name = sess_name s, sum_description = sess_description s,
      sum_start_time = sess_start_time s, sum_end_time = sess_end_time s,
      sum_status = sess_status s, sum_event_count = length (sess_events s),
      sum_snapshot_count = length (sess_snapshots s), sum_framework = sess_framework s\<rparr>"

definition save_session :: "JsonFileStorage \<Rightarrow> TraceEvent TraceSession \<Rightarrow> JsonFileStorage" where
  "save_session st s =
     st\<lparr>files := (files st)(sess_id s := Some s),
        index := summary_of s # filter (\<lambda>x. sum_id x \<noteq> sess_id s) (index st)\<rparr>"

definition load_session :: "JsonFileStorage \<Rightarrow> string \<Rightarrow> string + TraceEvent TraceSession" where
  "load_session st session_id =
     (case files st session_id of
        None \<Rightarrow> Inl (''Session not found: '' @ session_id)
      | Some s \<Rightarrow> Inr s)"

text \<open>The slice \<open>xs[:n]\<close>; a negative \<open>n\<close> counts from the end.\<close>

definition py_slice_to :: "'a list \<Rightarrow> int \<Rightarrow> 'a list" where
  "py_slice_to xs n = (if 0 \<le> n then take (nat n) xs else take (length xs - nat (- n)) xs)"

definition list_sessions :: "JsonFileStorage \<Rightarrow> int \<Rightarrow> summary list" where
  "list_sessions st limit = py_slice_to (index st) limit"

section \<open>Recorder (core/recorder.py)\<close>

text \<open>
  The recorder's fields and the event objects it shares with its callers. The top of
  the span stack is the last element, as \<open>append\<close> and \<open>pop\<close> have it.
\<close>

record Recorder =
  storage :: JsonFileStorage
  current_session :: "ref TraceSession option"
  event_stack :: "ref list"
  heap :: heap
  next_ref :: ref
  snapshot_engine :: SnapshotEngine

definition init_recorder :: Recorder where
  "init_recorder =
     \<lparr>storage = init_storage, current_session = None, event_stack = [],
      heap = (\<lambda>_. new_event [] [] SPAN [] [] 0), next_ref = 0,
      snapshot_engine = init_engine\<rparr>"

text \<open>
  What an operation draws from its surroundings: the clock, its rendering in a default
  session name, the interpreter's version and the uuid of a session it may create.
\<close>

record env =
  now :: int
  now_label :: string
  python_version :: string
  session_uuid :: string

definition end_session :: "Recorder \<Rightarrow> EventStatus \<Rightarrow> int \<Rightarrow> ref TraceSession option \<times> Recorder" where
  "end_session w status t =
     (case current_session w of
        None \<Rightarrow> (None, w)
      | Some session \<Rightarrow>
          (let session1 = session_complete session status t
           in (Some session1,
               w\<lparr>storage := save_session (storage w) (session_dump (heap w) session1),
                 current_session := None,
                 event_stack := []\<rparr>)))"

definition start_session ::
  "Recorder \<Rightarrow> string option \<Rightarrow> string option \<Rightarrow> pydict \<Rightarrow> env \<Rightarrow> ref TraceSession \<times> Recorder" where
  "start_session w name description metadata en =
     (let w1 = (if current_session w \<noteq> None then snd (end_session w SUCCESS (now en)) else w);
          session =
            \<lparr>sess_id = session_uuid en,
             sess_name = (case name of Some n \<Rightarrow> (if n = [] then ''trace_'' @ now_label en else n)
                          | None \<Rightarrow> ''trace_'' @ now_label en),
             sess_description = description, sess_start_time = now en, sess_end_time = None,
             sess_events = [], sess_snapshots = [], sess_status = RUNNING,
             sess_root_event_id = None, sess_metadata = metadata, sess_framework = None,
             sess_python_version = Some (python_version en), sess_sdk_version = Some ''0.1.0''\<rparr>
      in (session, w1\<lparr>current_session := Some session, event_stack := []\<rparr>))"

text \<open>The first lines of the recording operations: start a session when none is active.\<close>

definition ensure_session :: "Recorder \<Rightarrow> env \<Rightarrow> Recorder" where
  "ensure_session w en =
     (if current_session w = None then snd (start_session w None None [] en) else w)"

definition set_parent :: "Recorder \<Rightarrow> ref \<Rightarrow> Recorder" where
  "set_parent w r =
     (if event_stack w \<noteq> []
      then w\<lparr>heap := (heap w)(r := (heap w r)\<lparr>ev_parent_id := Some (ev_id (heap w (last (event_stack w))))\<rparr>)\<rparr>
      else w)"

definition append_event :: "Recorder \<Rightarrow> ref \<Rightarrow> Recorder" where
  "append_event w r =
     (case current_session w of
        None \<Rightarrow> w
      | Some s \<Rightarrow>
          (let h1 = (heap w)(r := (heap w r)\<lparr>ev_trace_id := sess_id s\<rparr>);
               (s1, h2) = add_event s r h1
           in w\<lparr>current_session := Some s1, heap := h2\<rparr>))"

definition record_event :: "Recorder \<Rightarrow> ref \<Rightarrow> env \<Rightarrow> Recorder" where
  "record_event w r en = append_event (set_parent (ensure_session w en) r) r"

definition record_span_start :: "Recorder \<Rightarrow> ref \<Rightarrow> env \<Rightarrow> Recorder" where
  "record_span_start w r en =
     (let w1 = append_event (set_parent (ensure_session w en) r) r
      in w1\<lparr>event_stack := event_stack w1 @ [r]\<rparr>)"

definition record_span_end :: "Recorder \<Rightarrow> ref \<Rightarrow> int \<Rightarrow> Recorder" where
  "record_span_end w r t =
     (let w1 = (if event_stack w \<noteq> [] \<and> ev_id (heap w (last (event_stack w))) = ev_id (heap w r)
                then w\<lparr>event_stack := butlast (event_stack w)\<rparr> else w)
      in if event_stack w1 = []
         then snd (end_session w1
                     (if ev_status (heap w1 r) \<noteq> RUNNING then ev_status (heap w1 r) else SUCCESS) t)
         else w1)"

text \<open>
  The context manager \<open>span\<close>: entering it builds the span object and records its
  start; leaving it completes or fails the span and records its end on every path.
\<close>

definition alloc :: "Recorder \<Rightarrow> TraceEvent \<Rightarrow> ref \<times> Recorder" where
  "alloc w e = (next_ref w, w\<lparr>heap := (heap w)(next_ref w := e), next_ref := Suc (next_ref w)\<rparr>)"

definition span_enter :: "Recorder \<Rightarrow> string \<Rightarrow> pydict \<Rightarrow> string \<Rightarrow> env \<Rightarrow> ref \<times> Recorder" where
  "span_enter w name metadata uuid en =
     (let (r, w1) = alloc w (new_event uuid
                       (case current_session w of Some s \<Rightarrow> sess_id s | None \<Rightarrow> [])
                       SPAN name metadata (now en))
      in (r, record_span_start w1 r en))"

definition on_heap :: "Recorder \<Rightarrow> ref \<Rightarrow> (TraceEvent \<Rightarrow> TraceEvent) \<Rightarrow> Recorder" where
  "on_heap w r f = w\<lparr>heap := (heap w)(r := f (heap w r))\<rparr>"

definition span_exit :: "Recorder \<Rightarrow> ref \<Rightarrow> int \<Rightarrow> Recorder" where
  "span_exit w r t = record_span_end (on_heap w r (\<lambda>e. event_complete e SUCCESS t)) r t"

definition span_exit_raising :: "Recorder \<Rightarrow> ref \<Rightarrow> string \<Rightarrow> int \<Rightarrow> Recorder" where
  "span_exit_raising w r msg t = record_span_end (on_heap w r (\<lambda>e. event_fail e msg t)) r t"

text \<open>
  \<open>capture_state\<close>: the snapshot goes to the active session when there is one, and
  is returned in either case.
\<close>

definition capture_state ::
  "Recorder \<Rightarrow> pyval \<Rightarrow> string option \<Rightarrow> string option \<Rightarrow> int \<Rightarrow> string
     \<Rightarrow> string + StateSnapshot \<times> Recorder" where
  "capture_state w state name description t uuid =
     (let event_id = (if event_stack w \<noteq> [] then ev_id (heap w (last (event_stack w))) else []);
          trace_id = (case current_session w of Some s \<Rightarrow> sess_id s | None \<Rightarrow> [])
      in case capture (snapshot_engine w) state trace_id event_id name description t uuid of
           Inl e \<Rightarrow> Inl e
         | Inr snapshot \<Rightarrow>
             (case current_session w of
                Some s \<Rightarrow>
                  Inr (snapshot\<lparr>snap_trace_id := sess_id s\<rparr>,
                       w\<lparr>current_session := Some (add_snapshot s snapshot)\<rparr>)
              | None \<Rightarrow> Inr (snapshot, w)))"

text \<open>
  \<open>replay\<close> up to the point where the server starts: the session it loads, if any.
  Without a session id it takes the last entry of \<open>list_sessions()\<close>, whose limit
  defaults to 100.
\<close>

definition replay :: "Recorder \<Rightarrow> string option \<Rightarrow> string + TraceEvent TraceSession option" where
  "replay w session_id =
     (case session_id of
        Some sid \<Rightarrow> (if sid \<noteq> [] then map_sum id Some (load_session (storage w) sid)
                     else (let sessions = list_sessions (storage w) 100
                           in if sessions \<noteq> []
                              then map_sum id Some (load_session (storage w) (sum_id (last sessions)))
                              else Inr None))
      | None \<Rightarrow> (let sessions = list_sessions (storage w) 100
                 in if sessions \<noteq> []
                    then map_sum id Some (load_session (storage w) (sum_id (last sessions)))
                    else Inr None))"

text \<open>Appending a sequence of event objects, one \<open>add_event\<close> after the other.\<close>

fun add_events :: "ref TraceSession \<Rightarrow> ref list \<Rightarrow> heap \<Rightarrow> ref TraceSession \<times> heap" where
  "add_events s [] h = (s, h)"
| "add_events s (r # rs) h = (case add_event s r h of (s1, h1) \<Rightarrow> add_events s1 rs h1)"

section \<open>Scenarios\<close>

text \<open>
  A fresh recorder in which the span \<open>outer\<close> is entered, and then the span
  \<open>inner\<close> inside it.
\<close>

definition env0 :: env where
  "env0 = \<lparr>now = 0, now_label = ''20260101_000000'', python_version = ''3.11.0'', session_uuid = ''sess-1''\<rparr>"

definition demo_outer :: Recorder where
  "demo_outer = snd (span_enter init_recorder ''outer'' [] ''ev-1'' env0)"

definition demo_inner :: Recorder where
  "demo_inner = snd (span_enter demo_outer ''inner'' [] ''ev-2'' env0)"

text \<open>
  While \<open>outer\<close> is open the caller starts a new session: the old one is saved and
  the stack is cleared.
\<close>

definition env1 :: env where
  "env1 = \<lparr>now = 2, now_label = ''20260101_000002'', python_version = ''3.11.0'', session_uuid = ''sess-2''\<rparr>"

definition demo_restarted :: Recorder where
  "demo_restarted = snd (start_session demo_outer (Some ''b'') None [] env1)"

text \<open>Stored sessions, and recorders whose storage holds two and 101 of them.\<close>

definition demo_session :: "nat \<Rightarrow> TraceEvent TraceSession" where
  "demo_session i =
     \<lparr>sess_id = ''s'' @ str_nat i, sess_name = ''run'', sess_description = None,
      sess_start_time = int i, sess_end_time = Some (int i), sess_events = [],
      sess_snapshots = [], sess_status = SUCCESS, sess_root_event_id = None,
      sess_metadata = [], sess_framework = None, sess_python_version = None,
      sess_sdk_version = None\<rparr>"

definition demo_two :: Recorder where
  "demo_two = init_recorder\<lparr>storage := foldl save_session init_storage [demo_session 0, demo_session 1]\<rparr>"

definition demo_many :: Recorder where
  "demo_many = init_recorder\<lparr>storage := foldl save_session init_storage (map demo_session [0..<101])\<rparr>"

text \<open>
  The state \<open>{"counter": 1, "items": ["a", "b"]}\<close>, its serialized tree, the
  snapshot taken of it and the recorder after capturing it inside \<open>outer\<close>.
\<close>

definition demo_state :: pyval where
  "demo_state = VDict [(KStr ''counter'', VInt 1), (KStr ''items'', VList [VStr ''a'', VStr ''b''])]"

definition demo_tree :: pyval where
  "demo_tree =
     VDict [(KStr ''_value'',
             VDict [(KStr ''counter'', VDict [(KStr ''_value'', VInt 1), (KStr ''_type'', VStr ''int'')]),
                    (KStr ''items'',
                     VDict [(KStr ''_value'',
                             VList [VDict [(KStr ''_value'', VStr ''a''), (KStr ''_type'', VStr ''str'')],
                                    VDict [(KStr ''_value'', VStr ''b''), (KStr ''_type'', VStr ''str'')]]),
                            (KStr ''_type'', VStr ''list'')])]),
            (KStr ''_type'', VStr ''dict'')]"

definition demo_snapshot :: "string \<Rightarrow> string \<Rightarrow> StateSnapshot" where
  "demo_snapshot trace_id event_id =
     \<lparr>snap_id = ''snap-1'', snap_trace_id = trace_id, snap_event_id = event_id, snap_timestamp = 5,
      snap_state = demo_tree, snap_state_type = ''dict'', snap_restorable = True,
      snap_checkpoint_name = Some ''checkpoint_1'', snap_description = None,
      snap_serialization_warnings = []\<rparr>"

definition demo_captured :: Recorder where
  "demo_captured =
     demo_outer\<lparr>current_session :=
       Some (add_snapshot (the (current_session demo_outer)) (demo_snapshot ''sess-1'' ''ev-1''))\<rparr>"

section \<open>Properties of the event model and the recorder\<close>

lemmas rec_defs = record_span_end_def end_session_def start_session_def ensure_session_def
  set_parent_def append_event_def record_span_start_def record_event_def add_event_def
  session_complete_def session_dump_def save_session_def load_session_def alloc_def span_enter_def
  on_heap_def span_exit_def span_exit_raising_def init_recorder_def init_storage_def new_event_def
  event_complete_def event_fail_def summary_of_def






lemma add_event_root:
  "sess_root_event_id (fst (add_event s r h)) =
     (case sess_root_event_id s of
        Some x \<Rightarrow> Some x
      | None \<Rightarrow> if ev_parent_id (h r) = None then Some (ev_id (h r)) else None)"
  by (simp add: add_event_def Let_def split: option.splits)

lemma add_event_heap:
  "ev_id (snd (add_event s r h) q) = ev_id (h q)"
  "ev_parent_id (snd (add_event s r h) q) = ev_parent_id (h q)"
  "sess_events (fst (add_event s r h)) = sess_events s @ [r]"
  by (simp_all add: add_event_def Let_def)

lemma add_events_root:
  "sess_root_event_id (fst (add_events s rs h)) =
     (case sess_root_event_id s of
        Some x \<Rightarrow> Some x
      | None \<Rightarrow> map_option (\<lambda>r. ev_id (h r)) (List.find (\<lambda>r. ev_parent_id (h r) = None) rs))"
proof (induction rs arbitrary: s h)
  case Nil
  then show ?case by (simp split: option.splits)
next
  case (Cons r rs)
  obtain s1 h1 where a: "add_event s r h = (s1, h1)" by (cases "add_event s r h")
  have r1: "sess_root_event_id s1 =
     (case sess_root_event_id s of
        Some x \<Rightarrow> Some x
      | None \<Rightarrow> if ev_parent_id (h r) = None then Some (ev_id (h r)) else None)"
    using add_event_root [of s r h] a by simp
  have hh: "\<And>q. ev_id (h1 q) = ev_id (h q)" "\<And>q. ev_parent_id (h1 q) = ev_parent_id (h q)"
    using add_event_heap [of s r h] a by simp_all
  show ?case
    using Cons.IH [of s1 h1] a r1 hh by (simp split: option.splits)
qed

lemma span_start_parent_nonempty:
  "current_session w = Some s \<Longrightarrow> event_stack w \<noteq> [] \<Longrightarrow>
   ev_parent_id (heap (record_span_start w r en) r) = Some (ev_id (heap w (last (event_stack w))))"
  by (simp add: record_span_start_def ensure_session_def set_parent_def append_event_def
      add_event_def Let_def)

lemma span_start_parent_empty:
  "event_stack w = [] \<Longrightarrow>
   ev_parent_id (heap (record_span_start w r en) r) = ev_parent_id (heap w r)"
  by (simp add: record_span_start_def ensure_session_def set_parent_def append_event_def
      add_event_def start_session_def end_session_def Let_def split: option.splits)

lemma span_start_pushes:
  "event_stack (record_span_start w r en) =
     (if current_session w = None then [] else event_stack w) @ [r]"
  by (simp add: record_span_start_def ensure_session_def set_parent_def append_event_def
      add_event_def start_session_def end_session_def Let_def split: option.splits)


lemma span_enter_first:
  assumes "event_stack w = []"
    and "case current_session w of None \<Rightarrow> True | Some s \<Rightarrow> sess_root_event_id s = None"
  shows "fst (span_enter w n m u e) = next_ref w"
    and "next_ref (snd (span_enter w n m u e)) = Suc (next_ref w)"
    and "event_stack (snd (span_enter w n m u e)) = [next_ref w]"
    and "ev_id (heap (snd (span_enter w n m u e)) (next_ref w)) = u"
    and "ev_parent_id (heap (snd (span_enter w n m u e)) (next_ref w)) = None"
    and "map_option sess_root_event_id (current_session (snd (span_enter w n m u e))) = Some (Some u)"
  using assms
  by (cases "current_session w";
      simp add: span_enter_def alloc_def record_span_start_def ensure_session_def set_parent_def
        append_event_def add_event_def start_session_def new_event_def Let_def)+

lemma span_enter_nested:
  assumes "current_session w = Some s" and "event_stack w \<noteq> []"
    and "last (event_stack w) \<noteq> next_ref w"
  shows "fst (span_enter w n m u e) = next_ref w"
    and "event_stack (snd (span_enter w n m u e)) = event_stack w @ [next_ref w]"
    and "ev_id (heap (snd (span_enter w n m u e)) (next_ref w)) = u"
    and "ev_parent_id (heap (snd (span_enter w n m u e)) (next_ref w))
           = Some (ev_id (heap w (last (event_stack w))))"
    and "q \<noteq> next_ref w \<Longrightarrow> ev_id (heap (snd (span_enter w n m u e)) q) = ev_id (heap w q)"
    and "q \<noteq> next_ref w \<Longrightarrow>
           ev_parent_id (heap (snd (span_enter w n m u e)) q) = ev_parent_id (heap w q)"
    and "sess_root_event_id s = Some x \<Longrightarrow>
           map_option sess_root_event_id (current_session (snd (span_enter w n m u e))) = Some (Some x)"
  using assms
  by (simp_all add: span_enter_def alloc_def record_span_start_def ensure_session_def set_parent_def
        append_event_def add_event_def new_event_def Let_def)


lemma outer_inner:
  assumes st: "event_stack w = []"
    and rt: "case current_session w of None \<Rightarrow> True | Some s \<Rightarrow> sess_root_event_id s = None"
  shows "case span_enter w n1 m1 uo e1 of (ro, w1) \<Rightarrow>
           (case span_enter w1 n2 m2 ui e2 of (ri, w2) \<Rightarrow>
              ev_id (heap w2 ro) = uo \<and> ev_id (heap w2 ri) = ui
              \<and> ev_parent_id (heap w2 ro) = None
              \<and> ev_parent_id (heap w2 ri) = Some uo
              \<and> map_option sess_root_event_id (current_session w2) = Some (Some uo)
              \<and> event_stack w2 = [ro, ri])"
proof -
  obtain ro w1 where a: "span_enter w n1 m1 uo e1 = (ro, w1)"
    by (cases "span_enter w n1 m1 uo e1")
  obtain ri w2 where b: "span_enter w1 n2 m2 ui e2 = (ri, w2)"
    by (cases "span_enter w1 n2 m2 ui e2")
  have ro: "ro = next_ref w" and nx: "next_ref w1 = Suc ro" and stk: "event_stack w1 = [ro]"
    and id1: "ev_id (heap w1 ro) = uo" and p1: "ev_parent_id (heap w1 ro) = None"
    and root1: "map_option sess_root_event_id (current_session w1) = Some (Some uo)"
    using span_enter_first [OF st rt, of n1 m1 uo e1] a by simp_all
  from root1 obtain s1 where s1: "current_session w1 = Some s1"
    and r1: "sess_root_event_id s1 = Some uo"
    by (cases "current_session w1") auto
  have ne: "event_stack w1 \<noteq> []" and lst: "last (event_stack w1) \<noteq> next_ref w1"
    using stk nx by simp_all
  have ri: "ri = next_ref w1"
    using span_enter_nested(1) [OF s1 ne lst, of n2 m2 ui e2] b by simp
  have neq: "ro \<noteq> next_ref w1" using nx by simp
  have "event_stack w2 = [ro, ri]"
    using span_enter_nested(2) [OF s1 ne lst, of n2 m2 ui e2] b stk ri by simp
  moreover have "ev_id (heap w2 ri) = ui"
    using span_enter_nested(3) [OF s1 ne lst, of n2 m2 ui e2] b ri by simp
  moreover have "ev_parent_id (heap w2 ri) = Some uo"
    using span_enter_nested(4) [OF s1 ne lst, of n2 m2 ui e2] b ri stk id1 by simp
  moreover have "ev_id (heap w2 ro) = uo"
    using span_enter_nested(5) [OF s1 ne lst neq, of n2 m2 ui e2] b id1 by simp
  moreover have "ev_parent_id (heap w2 ro) = None"
    using span_enter_nested(6) [OF s1 ne lst neq, of n2 m2 ui e2] b p1 by simp
  moreover have "map_option sess_root_event_id (current_session w2) = Some (Some uo)"
    using span_enter_nested(7) [OF s1 ne lst r1, of n2 m2 ui e2] b by simp
  ultimately show ?thesis using a b by simp
qed

text \<open>
  Claim C8. A span begun while a session is active and the stack is non-empty gets the
  id of the top of the stack as its parent; a span begun on an empty stack keeps the
  parent it came with, which is \<open>None\<close> for a span made by \<open>span\<close>; appending
  events to a session leaves a root that is already set alone, and otherwise sets it to
  the id of the first appended event without a parent; entering \<open>outer\<close> and then
  \<open>inner\<close> on an empty stack, with no root set yet, gives \<open>inner\<close> the parent
  \<open>outer\<close>, leaves \<open>outer\<close> without a parent and makes \<open>outer\<close> the root.
\<close>

theorem span_parent_and_root:
  "(current_session w = Some s \<and> event_stack w \<noteq> [] \<longrightarrow>
      ev_parent_id (heap (record_span_start w r en) r)
        = Some (ev_id (heap w (last (event_stack w)))))
   \<and> (event_stack w = [] \<longrightarrow>
      ev_parent_id (heap (record_span_start w r en) r) = ev_parent_id (heap w r))
   \<and> sess_root_event_id (fst (add_events s' rs h)) =
       (case sess_root_event_id s' of
          Some x \<Rightarrow> Some x
        | None \<Rightarrow> map_option (\<lambda>q. ev_id (h q)) (List.find (\<lambda>q. ev_parent_id (h q) = None) rs))
   \<and> (event_stack w = []
        \<and> (case current_session w of None \<Rightarrow> True | Some c \<Rightarrow> sess_root_event_id c = None) \<longrightarrow>
       (case span_enter w n1 m1 uo e1 of (ro, w1) \<Rightarrow>
          (case span_enter w1 n2 m2 ui e2 of (ri, w2) \<Rightarrow>
             ev_id (heap w2 ro) = uo \<and> ev_id (heap w2 ri) = ui
             \<and> ev_parent_id (heap w2 ro) = None
             \<and> ev_parent_id (heap w2 ri) = Some uo
             \<and> map_option sess_root_event_id (current_session w2) = Some (Some uo)
             \<and> event_stack w2 = [ro, ri])))"
proof (intro conjI impI)
  assume "current_session w = Some s \<and> event_stack w \<noteq> []"
  then show "ev_parent_id (heap (record_span_start w r en) r)
      = Some (ev_id (heap w (last (event_stack w))))"
    by (simp add: span_start_parent_nonempty)
next
  assume "event_stack w = []"
  then show "ev_parent_id (heap (record_span_start w r en) r) = ev_parent_id (heap w r)"
    by (rule span_start_parent_empty)
next
  show "sess_root_event_id (fst (add_events s' rs h)) =
       (case sess_root_event_id s' of
          Some x \<Rightarrow> Some x
        | None \<Rightarrow> map_option (\<lambda>q. ev_id (h q)) (List.find (\<lambda>q. ev_parent_id (h q) = None) rs))"
    by (rule add_events_root)
next
  assume a: "event_stack w = []
        \<and> (case current_session w of None \<Rightarrow> True | Some c \<Rightarrow> sess_root_event_id c = None)"
  show "case span_enter w n1 m1 uo e1 of (ro, w1) \<Rightarrow>
          (case span_enter w1 n2 m2 ui e2 of (ri, w2) \<Rightarrow>
             ev_id (heap w2 ro) = uo \<and> ev_id (heap w2 ri) = ui
             \<and> ev_parent_id (heap w2 ro) = None
             \<and> ev_parent_id (heap w2 ri) = Some uo
             \<and> map_option sess_root_event_id (current_session w2) = Some (Some uo)
             \<and> event_stack w2 = [ro, ri])"
    using a by (intro outer_inner) simp_all
qed

text \<open>Claim C8 on the scenario, from a fresh recorder.\<close>

theorem span_parent_and_root_witness:
  "current_session demo_outer \<noteq> None \<and> event_stack demo_outer = [0]
   \<and> ev_parent_id (heap (record_span_start demo_outer 5 env0) 5) = Some ''ev-1''
   \<and> event_stack init_recorder = []
   \<and> ev_parent_id (heap (record_span_start init_recorder 5 env0) 5) = None
   \<and> current_session init_recorder = None
   \<and> ev_parent_id (heap demo_inner 0) = None
   \<and> ev_parent_id (heap demo_inner 1) = Some ''ev-1''
   \<and> ev_id (heap demo_inner 0) = ''ev-1''
   \<and> map_option sess_root_event_id (current_session demo_inner) = Some (Some ''ev-1'')
   \<and> event_stack demo_inner = [0, 1]"
proof -
  have h1: "current_session demo_outer = Some (the (current_session demo_outer))"
    by (simp add: demo_outer_def env0_def rec_defs Let_def)
  have h1': "current_session demo_outer \<noteq> None"
    by (simp add: demo_outer_def env0_def rec_defs Let_def)
  have h2: "event_stack demo_outer = [0]"
    by (simp add: demo_outer_def env0_def rec_defs Let_def)
  have h3: "event_stack init_recorder = []" and h4: "current_session init_recorder = None"
    by (simp_all add: init_recorder_def)
  have h5: "ev_id (heap demo_outer 0) = ''ev-1''" 
    by (simp add: demo_outer_def env0_def rec_defs Let_def)
  have h6: "ev_parent_id (heap init_recorder 5) = None"
    by (simp add: init_recorder_def new_event_def)
  have e1: "span_enter init_recorder ''outer'' [] ''ev-1'' env0 = (0, demo_outer)"
    by (simp add: demo_outer_def prod_eq_iff span_enter_def alloc_def split_beta Let_def
        init_recorder_def)
  have e2: "span_enter demo_outer ''inner'' [] ''ev-2'' env0 = (1, demo_inner)"
    by (simp add: demo_inner_def prod_eq_iff span_enter_def alloc_def split_beta Let_def
        demo_outer_def init_recorder_def rec_defs)
  show ?thesis
    using span_parent_and_root [where w = demo_outer and s = "the (current_session demo_outer)"
        and r = 5 and en = env0]
      span_parent_and_root [where w = init_recorder and r = 5 and en = env0
        and ?n1.0 = "''outer''" and ?m1.0 = "[]" and uo = "''ev-1''" and ?e1.0 = env0
        and ?n2.0 = "''inner''" and ?m2.0 = "[]" and ui = "''ev-2''" and ?e2.0 = env0]
      h1 h1' h2 h3 h4 h5 h6 e1 e2
    by simp
qed


text \<open>
  Ending a span that is not at the top of a non-empty stack changes nothing, and so
  does ending a span on an empty stack while no session is active.
\<close>

lemma span_end_mismatch_nonempty:
  "event_stack w \<noteq> [] \<Longrightarrow> ev_id (heap w (last (event_stack w))) \<noteq> ev_id (heap w r) \<Longrightarrow>
   record_span_end w r t = w"
  by (simp add: record_span_end_def)

lemma span_end_empty_no_session:
  "event_stack w = [] \<Longrightarrow> current_session w = None \<Longrightarrow> record_span_end w r t = w"
  by (simp add: record_span_end_def end_session_def)

text \<open>
  Claim C2, at the input where the code departs from it. Inside the span \<open>outer\<close>
  the caller has started the session \<open>sess-2\<close>, so the stack is empty and that
  session is running when \<open>outer\<close> ends. The span's id matches no top of stack, yet
  the call finalizes and saves \<open>sess-2\<close> and leaves the recorder without a session.
\<close>

theorem span_end_on_empty_stack_finalizes:
  "event_stack demo_restarted = []
   \<and> map_option sess_id (current_session demo_restarted) = Some ''sess-2''
   \<and> map_option sess_end_time (current_session demo_restarted) = Some None
   \<and> map sum_id (index (storage demo_restarted)) = [''sess-1'']
   \<and> current_session (span_exit demo_restarted 0 3) = None
   \<and> map sum_id (index (storage (span_exit demo_restarted 0 3))) = [''sess-2'', ''sess-1'']
   \<and> map sum_end_time (index (storage (span_exit demo_restarted 0 3))) = [Some 3, Some 2]
   \<and> span_exit demo_restarted 0 3 \<noteq> on_heap demo_restarted 0 (\<lambda>e. event_complete e SUCCESS 3)"
proof -
  have a: "current_session (span_exit demo_restarted 0 3) = None"
    by (simp add: demo_restarted_def demo_outer_def env0_def env1_def rec_defs Let_def)
  have b: "current_session (on_heap demo_restarted 0 (\<lambda>e. event_complete e SUCCESS 3)) \<noteq> None"
    by (simp add: demo_restarted_def demo_outer_def env0_def env1_def rec_defs Let_def)
  from a b have c: "span_exit demo_restarted 0 3 \<noteq> on_heap demo_restarted 0 (\<lambda>e. event_complete e SUCCESS 3)"
    by metis
  show ?thesis using c
    by (simp add: demo_restarted_def demo_outer_def env0_def env1_def rec_defs Let_def)
qed

section \<open>Properties of the storage and of replay\<close>

lemma index_save_all:
  "distinct (map sess_id ss) \<Longrightarrow> \<forall>s \<in> set ss. sess_id s \<notin> sum_id ` set (index st) \<Longrightarrow>
   index (foldl save_session st ss) = map summary_of (rev ss) @ index st"
proof (induction ss arbitrary: st)
  case Nil
  then show ?case by simp
next
  case (Cons s ss)
  have f: "filter (\<lambda>x. sum_id x \<noteq> sess_id s) (index st) = index st"
    using Cons.prems(2) by (fastforce simp: filter_id_conv image_iff)
  have i1: "index (save_session st s) = summary_of s # index st"
    by (simp add: save_session_def f)
  have "\<forall>t \<in> set ss. sess_id t \<notin> sum_id ` set (index (save_session st s))"
    using Cons.prems by (fastforce simp: i1 summary_of_def image_iff)
  with Cons.IH [of "save_session st s"] Cons.prems(1) i1 show ?case by simp
qed

lemma files_save_other:
  "sid \<notin> sess_id ` set ss \<Longrightarrow> files (foldl save_session st ss) sid = files st sid"
  by (induction ss arbitrary: st) (auto simp: save_session_def)

lemma files_save_all:
  "distinct (map sess_id ss) \<Longrightarrow> s \<in> set ss \<Longrightarrow>
   files (foldl save_session st ss) (sess_id s) = Some s"
proof (induction ss arbitrary: st)
  case Nil
  then show ?case by simp
next
  case (Cons a ss)
  show ?case
  proof (cases "s \<in> set ss")
    case True
    with Cons show ?thesis by simp
  next
    case False
    with Cons.prems have sa: "s = a" and "sess_id a \<notin> sess_id ` set ss" by auto
    then have "files (foldl save_session (save_session st a) ss) (sess_id a)
        = files (save_session st a) (sess_id a)"
      by (intro files_save_other)
    moreover have "files (save_session st a) (sess_id a) = Some a"
      by (simp add: save_session_def)
    ultimately show ?thesis using sa by simp
  qed
qed

lemma replay_after_saves:
  assumes d: "distinct (map sess_id ss)" and ne: "ss \<noteq> []"
    and st: "storage w = foldl save_session init_storage ss"
  shows "list_sessions (storage w) 100 = take 100 (map summary_of (rev ss))"
    and "replay w None = Inr (Some (rev ss ! (min (length ss) 100 - 1)))"
proof -
  have ix: "index (storage w) = map summary_of (rev ss)"
    using index_save_all [OF d, of init_storage] st by (simp add: init_storage_def)
  show ls: "list_sessions (storage w) 100 = take 100 (map summary_of (rev ss))"
    by (simp add: list_sessions_def py_slice_to_def ix)
  let ?k = "min (length ss) 100 - 1"
  have k: "?k < length ss" using ne by (cases ss) auto
  have nemp: "take 100 (map summary_of (rev ss)) \<noteq> []" using ne by simp
  have "last (take 100 (map summary_of (rev ss))) = summary_of (rev ss ! ?k)"
    using k ne by (simp add: last_conv_nth min_def)
  then have lastid: "sum_id (last (list_sessions (storage w) 100)) = sess_id (rev ss ! ?k)"
    by (simp add: ls summary_of_def)
  have mem: "rev ss ! ?k \<in> set ss" using k by (metis length_rev nth_mem set_rev)
  have "load_session (storage w) (sess_id (rev ss ! ?k)) = Inr (rev ss ! ?k)"
    using files_save_all [OF d mem, of init_storage] st by (simp add: load_session_def)
  then show "replay w None = Inr (Some (rev ss ! ?k))"
    using nemp ls lastid by (simp add: replay_def Let_def)
qed





section \<open>Properties of capture_state\<close>

lemma serialize_demo_state:
  "serialize_state init_engine demo_state [] ''root'' 10 = (Inr (demo_tree, True), [])"
  by code_simp

lemma capture_demo_state:
  "capture init_engine demo_state tr ev (Some ''checkpoint_1'') None 5 ''snap-1'' = Inr (demo_snapshot tr ev)"
proof -
  have "type_name demo_state = ''dict''" by (simp add: demo_state_def)
  then show ?thesis by (simp add: capture_def serialize_demo_state demo_snapshot_def)
qed





end
